theory Spec2Isabelle
  imports Main
begin

section \<open>SecureBackupPanel: data model\<close>

text \<open>
  The embedding follows \<^verbatim>\<open>src/components/views/settings/SecureBackupPanel.tsx\<close>.
  The types \<^verbatim>\<open>IKeyBackupInfo\<close>, \<^verbatim>\<open>TrustInfo\<close> and the signature and device objects
  are imported by the source from another package; their shape is taken from section 3
  of the specification. A field that the source only tests for truthiness is an
  \<open>option\<close> whose \<open>None\<close> stands for every falsy value (\<^verbatim>\<open>null\<close>, \<^verbatim>\<open>undefined\<close>,
  the empty string).
\<close>

type_synonym ErrorInfo = string

record BackupInfo =
  version :: string
  algorithm :: string

text \<open>
  A device known to this client. \<open>getDisplayName\<close> is \<open>None\<close> when the device has no
  (non-empty) display name; \<open>getFingerprint\<close> is the identity key of the device.
\<close>

record DeviceRef =
  device_deviceId :: string
  getDisplayName :: "string option"
  getFingerprint :: string

text \<open>
  One signature of the backup. \<open>deviceVerified\<close> is the result of
  \<^verbatim>\<open>sig.deviceTrust.isVerified()\<close>.
\<close>

record Signature =
  deviceId :: string
  device :: "DeviceRef option"
  crossSigningId :: "string option"
  valid :: bool
  deviceVerified :: bool

record TrustInfo =
  sigs :: "Signature list"
  trusted_locally :: bool

section \<open>Classification of one signature\<close>

datatype Category =
    ValidFromThisUser
  | InvalidFromThisUser
  | FromUnknownUser string
  | FromUnknownSession string
  | ValidFromThisSession
  | InvalidFromThisSession
  | ValidFromVerifiedSession "string option"
  | ValidFromUnverifiedSession "string option"
  | InvalidFromVerifiedSession "string option"
  | InvalidFromUnverifiedSession "string option"

text \<open>
  \<^verbatim>\<open>sig.device ? sig.device.getDisplayName() || sig.device.deviceId : null\<close>
\<close>

definition deviceName :: "Signature \<Rightarrow> string option" where
  "deviceName s =
     (case device s of
        None \<Rightarrow> None
      | Some d \<Rightarrow> (case getDisplayName d of
                    Some n \<Rightarrow> Some n
                  | None \<Rightarrow> Some (device_deviceId d)))"

text \<open>
  \<^verbatim>\<open>sig.device && sig.device.getFingerprint() === MatrixClientPeg.get().getDeviceEd25519Key()\<close>;
  the first argument is the client's own device key.
\<close>

definition fromThisDevice :: "string \<Rightarrow> Signature \<Rightarrow> bool" where
  "fromThisDevice localDeviceKey s =
     (case device s of
        None \<Rightarrow> False
      | Some d \<Rightarrow> getFingerprint d = localDeviceKey)"

text \<open>
  \<^verbatim>\<open>sig.crossSigningId && sig.deviceId === MatrixClientPeg.get().getCrossSigningId()\<close>;
  the first argument is the client's own cross-signing identity.
\<close>

definition fromThisUser :: "string \<Rightarrow> Signature \<Rightarrow> bool" where
  "fromThisUser localCrossSigningId s =
     (case crossSigningId s of
        None \<Rightarrow> False
      | Some c \<Rightarrow> deviceId s = localCrossSigningId)"

text \<open>
  The chain of \<^verbatim>\<open>if\<close> / \<^verbatim>\<open>else if\<close> that assigns \<^verbatim>\<open>sigStatus\<close>. The source
  has no final \<^verbatim>\<open>else\<close>: when no branch is taken the variable stays undefined,
  which is \<open>None\<close> here.
\<close>

definition sigStatus :: "string \<Rightarrow> string \<Rightarrow> Signature \<Rightarrow> Category option" where
  "sigStatus localDeviceKey localCrossSigningId s =
     (if valid s \<and> fromThisUser localCrossSigningId s then Some ValidFromThisUser
      else if \<not> valid s \<and> fromThisUser localCrossSigningId s then Some InvalidFromThisUser
      else if crossSigningId s \<noteq> None then Some (FromUnknownUser (deviceId s))
      else if device s = None then Some (FromUnknownSession (deviceId s))
      else if valid s \<and> fromThisDevice localDeviceKey s then Some ValidFromThisSession
      else if \<not> valid s \<and> fromThisDevice localDeviceKey s then Some InvalidFromThisSession
      else if valid s \<and> deviceVerified s then Some (ValidFromVerifiedSession (deviceName s))
      else if valid s \<and> \<not> deviceVerified s then Some (ValidFromUnverifiedSession (deviceName s))
      else if \<not> valid s \<and> deviceVerified s then Some (InvalidFromVerifiedSession (deviceName s))
      else if \<not> valid s \<and> \<not> deviceVerified s
        then Some (InvalidFromUnverifiedSession (deviceName s))
      else None)"

text \<open>
  \<^verbatim>\<open>backupSigStatus.sigs.map(...)\<close>, replaced by the text "Backup is not signed by any
  of your sessions" when the sequence is empty.
\<close>

datatype SigStatuses = Unsigned | Statuses "Category option list"

definition backupSigStatuses :: "string \<Rightarrow> string \<Rightarrow> Signature list \<Rightarrow> SigStatuses" where
  "backupSigStatuses localDeviceKey localCrossSigningId ss =
     (if length ss = 0 then Unsigned
      else Statuses (map (sigStatus localDeviceKey localCrossSigningId) ss))"

subsection \<open>The ordered rule list of the specification\<close>

text \<open>
  Section 4.1 of the specification gives the classification as ten (predicate, category)
  pairs over the two booleans computed first, evaluated in order with the first match
  winning. These two definitions follow the specification's words, for comparison with
  \<open>sigStatus\<close>.
\<close>

definition spec_rules ::
  "bool \<Rightarrow> bool \<Rightarrow> ((Signature \<Rightarrow> bool) \<times> (Signature \<Rightarrow> Category)) list" where
  "spec_rules thisUser thisDevice =
     [(\<lambda>s. valid s \<and> thisUser, \<lambda>s. ValidFromThisUser),
      (\<lambda>s. \<not> valid s \<and> thisUser, \<lambda>s. InvalidFromThisUser),
      (\<lambda>s. crossSigningId s \<noteq> None, \<lambda>s. FromUnknownUser (deviceId s)),
      (\<lambda>s. device s = None, \<lambda>s. FromUnknownSession (deviceId s)),
      (\<lambda>s. valid s \<and> thisDevice, \<lambda>s. ValidFromThisSession),
      (\<lambda>s. \<not> valid s \<and> thisDevice, \<lambda>s. InvalidFromThisSession),
      (\<lambda>s. valid s \<and> deviceVerified s, \<lambda>s. ValidFromVerifiedSession (deviceName s)),
      (\<lambda>s. valid s \<and> \<not> deviceVerified s, \<lambda>s. ValidFromUnverifiedSession (deviceName s)),
      (\<lambda>s. \<not> valid s \<and> deviceVerified s, \<lambda>s. InvalidFromVerifiedSession (deviceName s)),
      (\<lambda>s. \<not> valid s \<and> \<not> deviceVerified s,
         \<lambda>s. InvalidFromUnverifiedSession (deviceName s))]"

fun first_match :: "(('a \<Rightarrow> bool) \<times> ('a \<Rightarrow> 'b)) list \<Rightarrow> 'a \<Rightarrow> 'b option" where
  "first_match [] x = None"
| "first_match ((p, c) # rs) x = (if p x then Some (c x) else first_match rs x)"

text \<open>
  The two booleans as section 4.1 words them: the signature's cross-signing identity is
  present and equals the client's own; the signature's device is present and its
  identity key equals the client's own device key.
\<close>

definition spec_fromThisUser :: "string \<Rightarrow> Signature \<Rightarrow> bool" where
  "spec_fromThisUser localCrossSigningId s =
     (crossSigningId s \<noteq> None \<and> crossSigningId s = Some localCrossSigningId)"

definition spec_fromThisDevice :: "string \<Rightarrow> Signature \<Rightarrow> bool" where
  "spec_fromThisDevice localDeviceKey s =
     (device s \<noteq> None \<and> map_option getFingerprint (device s) = Some localDeviceKey)"

text \<open>The classification of section 4.1, with its rules over its own two booleans.\<close>

definition spec_classify :: "string \<Rightarrow> string \<Rightarrow> Signature \<Rightarrow> Category option" where
  "spec_classify localDeviceKey localCrossSigningId s =
     first_match
       (spec_rules (spec_fromThisUser localCrossSigningId s)
                   (spec_fromThisDevice localDeviceKey s)) s"

section \<open>The component and its state\<close>

text \<open>
  \<^verbatim>\<open>IState\<close>. The five diagnostics fields are declared \<^verbatim>\<open>boolean\<close> and start
  as \<^verbatim>\<open>null\<close>, hence \<open>bool option\<close>. \<open>error\<close> holds the caught exception value;
  \<open>None\<close> is \<^verbatim>\<open>null\<close>.
\<close>

record IState =
  loading :: bool
  error :: "ErrorInfo option"
  backupKeyStored :: "bool option"
  backupKeyCached :: "bool option"
  backupKeyWellFormed :: "bool option"
  secretStorageKeyInAccount :: "bool option"
  secretStorageReady :: "bool option"
  backupInfo :: "BackupInfo option"
  backupSigStatus :: "TrustInfo option"
  sessionsRemaining :: int

text \<open>
  The asynchronous calls a method is suspended on. Each method below is split at its
  \<^verbatim>\<open>await\<close>: the part before it records the call as pending, and a \<open>_resume\<close>
  function is the continuation that runs when the call settles, on the component as it
  is at that moment.
  \<^item> \<open>AwaitDiagnostics\<close>: the four awaits of \<^verbatim>\<open>getUpdatedDiagnostics\<close>, between which
    the component is neither read nor written;
  \<^item> \<open>AwaitCheckKeyBackup\<close>: \<^verbatim>\<open>checkKeyBackup()\<close> in \<^verbatim>\<open>checkKeyBackupStatus\<close>;
  \<^item> \<open>AwaitKeyBackupVersion\<close>: \<^verbatim>\<open>getKeyBackupVersion()\<close> followed by
    \<^verbatim>\<open>isKeyBackupTrusted(backupInfo)\<close> in \<^verbatim>\<open>loadBackupStatus\<close>;
  \<^item> \<open>AwaitDeleteKeyBackupVersion v\<close>: \<^verbatim>\<open>deleteKeyBackupVersion(v)\<close>;
  \<^item> \<open>AwaitAccessSecretStorage\<close>: \<^verbatim>\<open>accessSecretStorage(..., true)\<close>.
\<close>

datatype Task =
    AwaitDiagnostics
  | AwaitCheckKeyBackup
  | AwaitKeyBackupVersion
  | AwaitDeleteKeyBackupVersion string
  | AwaitAccessSecretStorage

record Component =
  state :: IState
  unmounted :: bool
  pending :: "Task list"

definition constructor :: Component where
  "constructor =
     \<lparr> state = \<lparr> loading = True, error = None, backupKeyStored = None,
                  backupKeyCached = None, backupKeyWellFormed = None,
                  secretStorageKeyInAccount = None, secretStorageReady = None,
                  backupInfo = None, backupSigStatus = None, sessionsRemaining = 0 \<rparr>,
       unmounted = False,
       pending = [] \<rparr>"

definition componentWillUnmount :: "Component \<Rightarrow> Component" where
  "componentWillUnmount c = c\<lparr>unmounted := True\<rparr>"

definition onKeyBackupSessionsRemaining :: "int \<Rightarrow> Component \<Rightarrow> Component" where
  "onKeyBackupSessionsRemaining n c = c\<lparr>state := (state c)\<lparr>sessionsRemaining := n\<rparr>\<rparr>"

subsection \<open>Diagnostics\<close>

text \<open>
  What \<^verbatim>\<open>getSessionBackupPrivateKey()\<close> resolved to: nothing, a \<^verbatim>\<open>Uint8Array\<close>, or
  some other truthy value.
\<close>

datatype CachedKey = NoCachedKey | KeyBytes "nat list" | OtherCachedValue

text \<open>
  The values the four diagnostic calls resolved to; \<open>isKeyBackupKeyStored\<close> is the
  truthiness of the value returned.
\<close>

record DiagnosticsResult =
  isKeyBackupKeyStored :: bool
  getSessionBackupPrivateKey :: CachedKey
  hasKey :: bool
  isSecretStorageReady :: bool

definition getUpdatedDiagnostics :: "Component \<Rightarrow> Component" where
  "getUpdatedDiagnostics c = c\<lparr>pending := pending c @ [AwaitDiagnostics]\<rparr>"

text \<open>
  The method is never awaited by its callers, so a rejected call (\<open>Inl\<close>) changes
  nothing.
\<close>

definition getUpdatedDiagnostics_resume ::
  "ErrorInfo + DiagnosticsResult \<Rightarrow> Component \<Rightarrow> Component" where
  "getUpdatedDiagnostics_resume r c =
     (let c0 = c\<lparr>pending := remove1 AwaitDiagnostics (pending c)\<rparr> in
      case r of
        Inl e \<Rightarrow> c0
      | Inr d \<Rightarrow>
          if unmounted c0 then c0
          else c0\<lparr>state := (state c0)
                 \<lparr>backupKeyStored := Some (isKeyBackupKeyStored d),
                  backupKeyCached := Some (getSessionBackupPrivateKey d \<noteq> NoCachedKey),
                  backupKeyWellFormed :=
                    Some (case getSessionBackupPrivateKey d of KeyBytes b \<Rightarrow> True | _ \<Rightarrow> False),
                  secretStorageKeyInAccount := Some (hasKey d),
                  secretStorageReady := Some (isSecretStorageReady d)\<rparr>\<rparr>)"

subsection \<open>FullCheck: \<^verbatim>\<open>checkKeyBackupStatus\<close>\<close>

text \<open>
  Modelled from the spec: the result types of the backup service calls, which the source
  imports from another package (section 6: \<^verbatim>\<open>fullCheck\<close>, \<^verbatim>\<open>getCurrentVersion\<close>,
  \<^verbatim>\<open>evaluateTrust\<close>). A call fails with an error or succeeds; trust evaluation yields
  a \<open>TrustInfo\<close>; the backup metadata may be absent.
\<close>

type_synonym CheckKeyBackupResult = "ErrorInfo + (BackupInfo option \<times> TrustInfo)"
type_synonym GetKeyBackupVersionResult = "ErrorInfo + BackupInfo option"
type_synonym IsKeyBackupTrusted = "BackupInfo option \<Rightarrow> ErrorInfo + TrustInfo"

definition checkKeyBackupStatus :: "Component \<Rightarrow> Component" where
  "checkKeyBackupStatus c =
     (let c1 = getUpdatedDiagnostics c in
      c1\<lparr>pending := pending c1 @ [AwaitCheckKeyBackup]\<rparr>)"

definition checkKeyBackupStatus_resume :: "CheckKeyBackupResult \<Rightarrow> Component \<Rightarrow> Component" where
  "checkKeyBackupStatus_resume r c =
     (let c0 = c\<lparr>pending := remove1 AwaitCheckKeyBackup (pending c)\<rparr> in
      case r of
        Inr (bi, ti) \<Rightarrow>
          c0\<lparr>state := (state c0)\<lparr>loading := False, error := None,
                                 backupInfo := bi, backupSigStatus := Some ti\<rparr>\<rparr>
      | Inl e \<Rightarrow>
          if unmounted c0 then c0
          else c0\<lparr>state := (state c0)\<lparr>loading := False, error := Some e,
                                      backupInfo := None, backupSigStatus := None\<rparr>\<rparr>)"

definition componentDidMount :: "Component \<Rightarrow> Component" where
  "componentDidMount c = checkKeyBackupStatus c"

subsection \<open>QuickReload: \<^verbatim>\<open>loadBackupStatus\<close>\<close>

definition loadBackupStatus :: "Component \<Rightarrow> Component" where
  "loadBackupStatus c =
     (let c1 = c\<lparr>state := (state c)\<lparr>loading := True\<rparr>\<rparr>;
          c2 = getUpdatedDiagnostics c1 in
      c2\<lparr>pending := pending c2 @ [AwaitKeyBackupVersion]\<rparr>)"

text \<open>
  The outcome of the two awaited calls inside the \<^verbatim>\<open>try\<close>: the second is made with
  the value of the first, and an exception of either goes to the \<^verbatim>\<open>catch\<close>.
\<close>

definition loadBackupStatus_calls ::
  "GetKeyBackupVersionResult \<Rightarrow> IsKeyBackupTrusted \<Rightarrow> ErrorInfo + (BackupInfo option \<times> TrustInfo)"
  where
  "loadBackupStatus_calls getKeyBackupVersion isKeyBackupTrusted =
     (case getKeyBackupVersion of
        Inl e \<Rightarrow> Inl e
      | Inr bi \<Rightarrow> (case isKeyBackupTrusted bi of
                     Inl e \<Rightarrow> Inl e
                   | Inr ti \<Rightarrow> Inr (bi, ti)))"

definition loadBackupStatus_resume ::
  "GetKeyBackupVersionResult \<Rightarrow> IsKeyBackupTrusted \<Rightarrow> Component \<Rightarrow> Component" where
  "loadBackupStatus_resume getKeyBackupVersion isKeyBackupTrusted c =
     (let c0 = c\<lparr>pending := remove1 AwaitKeyBackupVersion (pending c)\<rparr> in
      case loadBackupStatus_calls getKeyBackupVersion isKeyBackupTrusted of
        Inr (bi, ti) \<Rightarrow>
          if unmounted c0 then c0
          else c0\<lparr>state := (state c0)\<lparr>loading := False, error := None,
                                      backupInfo := bi, backupSigStatus := Some ti\<rparr>\<rparr>
      | Inl e \<Rightarrow>
          if unmounted c0 then c0
          else c0\<lparr>state := (state c0)\<lparr>loading := False, error := Some e,
                                      backupInfo := None, backupSigStatus := None\<rparr>\<rparr>)"

definition onKeyBackupStatus :: "Component \<Rightarrow> Component" where
  "onKeyBackupStatus c = loadBackupStatus c"

subsection \<open>User operations\<close>

text \<open>The \<^verbatim>\<open>onFinished\<close> callback of the dialog opened by \<^verbatim>\<open>startNewBackup\<close>.\<close>

definition startNewBackup_onFinished :: "Component \<Rightarrow> Component" where
  "startNewBackup_onFinished c = loadBackupStatus c"

definition restoreBackup :: "Component \<Rightarrow> Component" where
  "restoreBackup c = c"

text \<open>
  The \<^verbatim>\<open>onFinished\<close> callback of the confirmation dialog opened by \<^verbatim>\<open>deleteBackup\<close>.
  Reading \<^verbatim>\<open>this.state.backupInfo.version\<close> with no backup throws; the second
  component of the result is that exception, raised after \<^verbatim>\<open>loading\<close> was set.
\<close>

definition deleteBackup_onFinished :: "bool \<Rightarrow> Component \<Rightarrow> Component \<times> ErrorInfo option" where
  "deleteBackup_onFinished proceed c =
     (if \<not> proceed then (c, None)
      else
        let c1 = c\<lparr>state := (state c)\<lparr>loading := True\<rparr>\<rparr> in
        case backupInfo (state c1) of
          None \<Rightarrow> (c1, Some ''TypeError'')
        | Some bi \<Rightarrow>
            (c1\<lparr>pending := pending c1 @ [AwaitDeleteKeyBackupVersion (version bi)]\<rparr>, None))"

text \<open>
  \<^verbatim>\<open>.then(() => { this.loadBackupStatus(); })\<close> on the promise of the deletion: the
  handler runs when the deletion succeeded; there is no rejection handler.
\<close>

definition deleteBackup_resume :: "string \<Rightarrow> ErrorInfo + unit \<Rightarrow> Component \<Rightarrow> Component" where
  "deleteBackup_resume v r c =
     (let c0 = c\<lparr>pending := remove1 (AwaitDeleteKeyBackupVersion v) (pending c)\<rparr> in
      case r of
        Inr u \<Rightarrow> loadBackupStatus c0
      | Inl e \<Rightarrow> c0)"

definition resetSecretStorage :: "Component \<Rightarrow> Component" where
  "resetSecretStorage c =
     (let c1 = c\<lparr>state := (state c)\<lparr>error := None\<rparr>\<rparr> in
      c1\<lparr>pending := pending c1 @ [AwaitAccessSecretStorage]\<rparr>)"

definition resetSecretStorage_resume :: "ErrorInfo + unit \<Rightarrow> Component \<Rightarrow> Component" where
  "resetSecretStorage_resume r c =
     (let c0 = c\<lparr>pending := remove1 AwaitAccessSecretStorage (pending c)\<rparr> in
      case r of
        Inl e \<Rightarrow>
          if unmounted c0 then c0
          else
            let c1 = c0\<lparr>state := (state c0)\<lparr>error := Some e\<rparr>\<rparr> in
            if unmounted c1 then c1 else loadBackupStatus c1
      | Inr u \<Rightarrow> if unmounted c0 then c0 else loadBackupStatus c0)"

section \<open>Rendering: status and actions\<close>

datatype Action = Restore | Delete | SetupNewBackup | ResetSecretStorage

text \<open>
  The array \<^verbatim>\<open>actions\<close> built by \<^verbatim>\<open>render\<close>; the first argument is what
  \<^verbatim>\<open>isSecureBackupRequired()\<close> returns.
\<close>

definition actions :: "bool \<Rightarrow> IState \<Rightarrow> Action list" where
  "actions secureBackupRequired s =
     (if error s \<noteq> None then []
      else if loading s then []
      else if backupInfo s \<noteq> None then
        [Restore] @ (if \<not> secureBackupRequired then [Delete] else [])
      else [SetupNewBackup])
     @ (if secretStorageKeyInAccount s = Some True then [ResetSecretStorage] else [])"

datatype StatusDescription =
    UnableToLoad | Spinner | BackingUp | NotBackingUp | NotBackedUp

datatype UploadStatus = NoUploadStatus | BackingUpKeys int | AllKeysBackedUp

record ExtraDetails =
  uploadStatus :: UploadStatus
  sigStatuses :: SigStatuses
  trustedLocally :: bool

record View =
  statusDescription :: StatusDescription
  extraDetails :: "ExtraDetails option"
  actionRow :: "Action list"

text \<open>
  The external values \<^verbatim>\<open>render\<close> reads: \<^verbatim>\<open>getKeyBackupEnabled()\<close>,
  \<^verbatim>\<open>getDeviceEd25519Key()\<close>, \<^verbatim>\<open>getCrossSigningId()\<close> and
  \<^verbatim>\<open>isSecureBackupRequired()\<close>.
\<close>

record Env =
  getKeyBackupEnabled :: bool
  getDeviceEd25519Key :: string
  getCrossSigningId :: string
  isSecureBackupRequired :: bool

text \<open>
  \<^verbatim>\<open>render\<close>. In the branch for a present backup the source reads
  \<^verbatim>\<open>backupSigStatus.sigs\<close> without a check, which throws when the trust information is
  absent: \<open>Inl\<close>.
\<close>

definition render :: "Env \<Rightarrow> IState \<Rightarrow> ErrorInfo + View" where
  "render env s =
     (if error s \<noteq> None then
        Inr \<lparr>statusDescription = UnableToLoad, extraDetails = None,
             actionRow = actions (isSecureBackupRequired env) s\<rparr>
      else if loading s then
        Inr \<lparr>statusDescription = Spinner, extraDetails = None,
             actionRow = actions (isSecureBackupRequired env) s\<rparr>
      else if backupInfo s \<noteq> None then
        (case backupSigStatus s of
           None \<Rightarrow> Inl ''TypeError''
         | Some t \<Rightarrow>
             Inr \<lparr>statusDescription =
                    (if getKeyBackupEnabled env then BackingUp else NotBackingUp),
                  extraDetails = Some
                    \<lparr>uploadStatus =
                       (if \<not> getKeyBackupEnabled env then NoUploadStatus
                        else if sessionsRemaining s > 0 then BackingUpKeys (sessionsRemaining s)
                        else AllKeysBackedUp),
                     sigStatuses =
                       backupSigStatuses (getDeviceEd25519Key env) (getCrossSigningId env) (sigs t),
                     trustedLocally = trusted_locally t\<rparr>,
                  actionRow = actions (isSecureBackupRequired env) s\<rparr>)
      else
        Inr \<lparr>statusDescription = NotBackedUp, extraDetails = None,
             actionRow = actions (isSecureBackupRequired env) s\<rparr>)"

section \<open>Concrete values\<close>

definition example_backup :: BackupInfo where
  "example_backup = \<lparr>version = ''1'', algorithm = ''m.megolm_backup.v1''\<rparr>"

definition example_trust :: TrustInfo where
  "example_trust = \<lparr>sigs = [], trusted_locally = False\<rparr>"

text \<open>A trust evaluation that answers every request with \<open>example_trust\<close>.\<close>

definition example_isKeyBackupTrusted :: IsKeyBackupTrusted where
  "example_isKeyBackupTrusted = (\<lambda>b. Inr example_trust)"

text \<open>A signature carrying the client's cross-signing identity under another key id.\<close>

definition example_sig :: Signature where
  "example_sig =
     \<lparr>deviceId = ''DEV'', device = None, crossSigningId = Some ''KEY'',
      valid = True, deviceVerified = False\<rparr>"

text \<open>The component once mounted, and once its first check found a backup.\<close>

definition example_mounted :: Component where
  "example_mounted = componentDidMount constructor"

definition example_ready :: Component where
  "example_ready =
     checkKeyBackupStatus_resume (Inr (Some example_backup, example_trust)) example_mounted"

text \<open>Every backup with a trust result: what \<^verbatim>\<open>render\<close> needs to read the signatures.\<close>

definition trust_known :: "IState \<Rightarrow> bool" where
  "trust_known s = (backupInfo s = None \<or> backupSigStatus s \<noteq> None)"

section \<open>Helper lemmas\<close>

lemmas resume_defs =
  getUpdatedDiagnostics_resume_def checkKeyBackupStatus_resume_def
  loadBackupStatus_resume_def deleteBackup_resume_def resetSecretStorage_resume_def

lemmas start_defs =
  getUpdatedDiagnostics_def checkKeyBackupStatus_def componentDidMount_def
  loadBackupStatus_def resetSecretStorage_def componentWillUnmount_def constructor_def

lemmas example_defs =
  example_backup_def example_trust_def example_sig_def example_mounted_def example_ready_def
  example_isKeyBackupTrusted_def

lemma loadBackupStatus_state:
  "state (loadBackupStatus c) = (state c)\<lparr>loading := True\<rparr>"
  by (simp add: loadBackupStatus_def getUpdatedDiagnostics_def Let_def)

lemma loadBackupStatus_unmounted:
  "unmounted (loadBackupStatus c) = unmounted c"
  by (simp add: loadBackupStatus_def getUpdatedDiagnostics_def Let_def)

lemma loadBackupStatus_pending:
  "pending (loadBackupStatus c) = pending c @ [AwaitDiagnostics, AwaitKeyBackupVersion]"
  by (simp add: loadBackupStatus_def getUpdatedDiagnostics_def Let_def)

text \<open>
  The continuations that test \<^verbatim>\<open>this.unmounted\<close> before every \<^verbatim>\<open>setState\<close> leave
  the state of an unmounted component as it is.
\<close>

lemma loadBackupStatus_resume_unmounted:
  "unmounted c \<Longrightarrow> state (loadBackupStatus_resume g t c) = state c"
  by (simp add: loadBackupStatus_resume_def Let_def split: sum.splits prod.splits)

lemma getUpdatedDiagnostics_resume_unmounted:
  "unmounted c \<Longrightarrow> state (getUpdatedDiagnostics_resume r c) = state c"
  by (simp add: getUpdatedDiagnostics_resume_def Let_def split: sum.splits)

lemma checkKeyBackupStatus_resume_error_unmounted:
  "unmounted c \<Longrightarrow> state (checkKeyBackupStatus_resume (Inl e) c) = state c"
  by (simp add: checkKeyBackupStatus_resume_def Let_def)

lemma resetSecretStorage_resume_unmounted:
  "unmounted c \<Longrightarrow> state (resetSecretStorage_resume r c) = state c"
  by (simp add: resetSecretStorage_resume_def Let_def split: sum.splits)

text \<open>The diagnostics never touch the fields written by a refresh.\<close>

lemma getUpdatedDiagnostics_resume_frame:
  "error (state (getUpdatedDiagnostics_resume r c)) = error (state c) \<and>
   loading (state (getUpdatedDiagnostics_resume r c)) = loading (state c) \<and>
   backupInfo (state (getUpdatedDiagnostics_resume r c)) = backupInfo (state c) \<and>
   backupSigStatus (state (getUpdatedDiagnostics_resume r c)) = backupSigStatus (state c) \<and>
   sessionsRemaining (state (getUpdatedDiagnostics_resume r c)) = sessionsRemaining (state c) \<and>
   unmounted (getUpdatedDiagnostics_resume r c) = unmounted c"
  by (simp add: getUpdatedDiagnostics_resume_def Let_def split: sum.splits)

text \<open>
  A failed reset on a mounted component stores the error and starts a reload.
\<close>

lemma resetSecretStorage_failure_reloads:
  assumes "\<not> unmounted c"
  shows "error (state (resetSecretStorage_resume (Inl e) c)) = Some e"
    and "loading (state (resetSecretStorage_resume (Inl e) c))"
    and "AwaitKeyBackupVersion \<in> set (pending (resetSecretStorage_resume (Inl e) c))"
  using assms
  by (simp_all add: resetSecretStorage_resume_def Let_def loadBackupStatus_state
      loadBackupStatus_pending)

text \<open>
  \<^verbatim>\<open>render\<close> returns exactly the array \<open>actions\<close>, and it returns whenever the trust
  result of a present backup is known.
\<close>

lemma render_actionRow:
  "render env s = Inr v \<Longrightarrow> actionRow v = actions (isSecureBackupRequired env) s"
  by (auto simp: render_def split: if_splits option.splits)

lemma render_total:
  "trust_known s \<Longrightarrow> \<exists>v. render env s = Inr v"
  by (auto simp: render_def trust_known_def split: option.splits)

lemma trust_known_constructor: "trust_known (state constructor)"
  by (simp add: trust_known_def constructor_def)

lemma trust_known_preserved:
  "trust_known (state c) \<Longrightarrow> trust_known (state (checkKeyBackupStatus c))"
  "trust_known (state c) \<Longrightarrow> trust_known (state (checkKeyBackupStatus_resume r c))"
  "trust_known (state c) \<Longrightarrow> trust_known (state (loadBackupStatus c))"
  "trust_known (state c) \<Longrightarrow> trust_known (state (loadBackupStatus_resume g t c))"
  "trust_known (state c) \<Longrightarrow> trust_known (state (getUpdatedDiagnostics_resume d c))"
  "trust_known (state c) \<Longrightarrow> trust_known (state (onKeyBackupSessionsRemaining n c))"
  "trust_known (state c) \<Longrightarrow> trust_known (state (componentWillUnmount c))"
  "trust_known (state c) \<Longrightarrow> trust_known (state (fst (deleteBackup_onFinished p c)))"
  "trust_known (state c) \<Longrightarrow> trust_known (state (deleteBackup_resume v u c))"
  "trust_known (state c) \<Longrightarrow> trust_known (state (resetSecretStorage c))"
  "trust_known (state c) \<Longrightarrow> trust_known (state (resetSecretStorage_resume u c))"
  by (auto simp: trust_known_def resume_defs start_defs onKeyBackupSessionsRemaining_def
      deleteBackup_onFinished_def Let_def split: sum.splits prod.splits option.splits)

section \<open>Signature classification\<close>

text \<open>
  C1, as stated, at a signature whose cross-signing identity is the client's own while
  its key id is another: the rules of section 4.1 stop at rule 1 and give
  \<open>ValidFromThisUser\<close>, the source passes rules 1 and 2 and gives \<open>FromUnknownUser\<close> by
  rule 3.
\<close>

theorem sigStatus_spec_classify_counterexample:
  "spec_classify ''ED'' ''KEY'' example_sig = Some ValidFromThisUser \<and>
   sigStatus ''ED'' ''KEY'' example_sig = Some (FromUnknownUser ''DEV'') \<and>
   sigStatus ''ED'' ''KEY'' example_sig \<noteq> spec_classify ''ED'' ''KEY'' example_sig"
  by (simp add: spec_classify_def spec_rules_def spec_fromThisUser_def spec_fromThisDevice_def
      sigStatus_def fromThisUser_def fromThisDevice_def example_sig_def)

text \<open>
  C1, amended. Classifying a signature evaluates the ten (predicate, category) rules of
  section 4.1 in their order, the first rule whose predicate holds giving the result,
  where \<open>fromThisUser\<close> is: the signature's cross-signing identity is present and the
  signature's \<open>deviceId\<close> equals the client's own cross-signing identity, and
  \<open>fromThisDevice\<close> is: the signature's device is present and its identity key equals the
  client's own device key. The result is always one of the ten categories, and an empty
  signature sequence gives \<open>Unsigned\<close>.
\<close>

theorem sigStatus_first_match_deviceId:
  "sigStatus lk lc s =
     first_match
       (spec_rules (crossSigningId s \<noteq> None \<and> deviceId s = lc)
                   (\<exists>d. device s = Some d \<and> getFingerprint d = lk)) s
   \<and> (\<exists>c. sigStatus lk lc s = Some c)
   \<and> backupSigStatuses lk lc [] = Unsigned"
proof -
  have u: "fromThisUser lc s = (crossSigningId s \<noteq> None \<and> deviceId s = lc)"
    by (simp add: fromThisUser_def split: option.splits)
  have d: "fromThisDevice lk s = (\<exists>d. device s = Some d \<and> getFingerprint d = lk)"
    by (simp add: fromThisDevice_def split: option.splits)
  have chain: "sigStatus lk lc s =
      first_match (spec_rules (fromThisUser lc s) (fromThisDevice lk s)) s"
    by (simp add: sigStatus_def spec_rules_def)
  have some: "\<exists>c. sigStatus lk lc s = Some c"
    by (simp add: sigStatus_def)
  have empty: "backupSigStatuses lk lc [] = Unsigned"
    by (simp add: backupSigStatuses_def)
  from chain u d some empty show ?thesis by simp
qed

text \<open>
  C2, as stated, at a signature whose cross-signing identity is the client's own while
  its key id is another: the source compares the key id, and answers no.
\<close>

theorem fromThisUser_counterexample:
  "fromThisUser ''KEY'' example_sig \<noteq>
     (crossSigningId example_sig \<noteq> None \<and> crossSigningId example_sig = Some ''KEY'')"
  by (simp add: fromThisUser_def example_sig_def)

text \<open>
  C2, amended. \<open>fromThisUser\<close> holds exactly when the signature's cross-signing identity
  is present and the signature's \<open>deviceId\<close> equals the client's own cross-signing
  identity; \<open>fromThisDevice\<close> holds exactly when the signature's device is present and its
  identity key equals the client's own device key.
\<close>

theorem fromThisUser_fromThisDevice_iff:
  "fromThisUser lc s = (crossSigningId s \<noteq> None \<and> deviceId s = lc) \<and>
   fromThisDevice lk s = (\<exists>d. device s = Some d \<and> getFingerprint d = lk)"
  by (simp add: fromThisUser_def fromThisDevice_def split: option.splits)

section \<open>Refreshes\<close>

text \<open>
  C3, as stated, at a quick reload that finds no backup: the trust result is stored
  although the backup metadata is absent.
\<close>

theorem trustInfo_iff_counterexample:
  "\<not> ((backupSigStatus (state (loadBackupStatus_resume (Inr None) example_isKeyBackupTrusted
                                 (loadBackupStatus example_ready))) \<noteq> None)
      = (backupInfo (state (loadBackupStatus_resume (Inr None) example_isKeyBackupTrusted
                              (loadBackupStatus example_ready))) \<noteq> None
         \<and> error (state (loadBackupStatus_resume (Inr None) example_isKeyBackupTrusted
                           (loadBackupStatus example_ready))) = None))"
  by (simp add: resume_defs start_defs example_defs loadBackupStatus_calls_def Let_def)

text \<open>
  C3, amended. In the snapshot left by a refresh that completes on a mounted component
  (full check or quick reload), the trust information is present exactly when the error
  is absent, and the backup metadata is present only when the error is absent.
\<close>

theorem trustInfo_present_iff_no_error:
  assumes "\<not> unmounted c"
  shows "(let s = state (checkKeyBackupStatus_resume r c) in
            (backupSigStatus s \<noteq> None) = (error s = None) \<and>
            (backupInfo s \<noteq> None \<longrightarrow> error s = None))
       \<and> (let s = state (loadBackupStatus_resume g t c) in
            (backupSigStatus s \<noteq> None) = (error s = None) \<and>
            (backupInfo s \<noteq> None \<longrightarrow> error s = None))"
  using assms
  by (auto simp: checkKeyBackupStatus_resume_def loadBackupStatus_resume_def Let_def
      split: sum.splits prod.splits)

theorem trustInfo_present_iff_no_error_witness:
  "\<not> unmounted example_mounted \<and>
   (let s = state (checkKeyBackupStatus_resume (Inl ''offline'') example_mounted) in
      (backupSigStatus s \<noteq> None) = (error s = None) \<and>
      (backupInfo s \<noteq> None \<longrightarrow> error s = None)) \<and>
   (let s = state (loadBackupStatus_resume (Inr (Some example_backup)) example_isKeyBackupTrusted
                     example_mounted) in
      (backupSigStatus s \<noteq> None) = (error s = None) \<and>
      (backupInfo s \<noteq> None \<longrightarrow> error s = None))"
proof -
  have m: "\<not> unmounted example_mounted"
    by (simp add: example_defs start_defs Let_def)
  show ?thesis
    using m trustInfo_present_iff_no_error [OF m, of "Inl ''offline''"
        "Inr (Some example_backup)" example_isKeyBackupTrusted]
    by simp
qed

text \<open>
  C4 at a component unmounted while its first check is in flight: when
  \<^verbatim>\<open>checkKeyBackup()\<close> then succeeds, the state is written although the component is
  unmounted.
\<close>

theorem checkKeyBackupStatus_resume_writes_after_unmount:
  "unmounted (componentWillUnmount example_mounted) \<and>
   AwaitCheckKeyBackup \<in> set (pending (componentWillUnmount example_mounted)) \<and>
   loading (state (componentWillUnmount example_mounted)) \<and>
   backupInfo (state (componentWillUnmount example_mounted)) = None \<and>
   \<not> loading (state (checkKeyBackupStatus_resume (Inr (Some example_backup, example_trust))
                      (componentWillUnmount example_mounted))) \<and>
   backupInfo (state (checkKeyBackupStatus_resume (Inr (Some example_backup, example_trust))
                      (componentWillUnmount example_mounted))) = Some example_backup"
  by (simp add: resume_defs start_defs example_defs Let_def)

section \<open>Actions\<close>

text \<open>
  C5, as stated, at the snapshot of a quick reload in flight over an existing backup:
  the backup metadata is present and a backup is not required, yet \<open>Delete\<close> is not
  offered, because \<open>loading\<close> is set.
\<close>

theorem delete_counterexample:
  "backupInfo (state (loadBackupStatus example_ready)) \<noteq> None \<and>
   Delete \<notin> set (actions False (state (loadBackupStatus example_ready)))"
  by (simp add: actions_def resume_defs start_defs example_defs Let_def)

text \<open>
  C5, amended. \<open>Delete\<close> is in the action set exactly when the backup metadata is present,
  the error is absent, \<open>loading\<close> is false and a secure backup is not required.
\<close>

theorem delete_iff:
  "(Delete \<in> set (actions secureBackupRequired s)) =
     (backupInfo s \<noteq> None \<and> error s = None \<and> \<not> loading s \<and> \<not> secureBackupRequired)"
  by (simp add: actions_def)

text \<open>
  C6. \<open>ResetSecretStorage\<close> is in the action set exactly when the diagnostics field
  \<open>secretStorageKeyInAccount\<close> is true, whatever the error, \<open>loading\<close>, the backup
  metadata and the policy are.
\<close>

theorem resetSecretStorage_action_iff:
  "(ResetSecretStorage \<in> set (actions secureBackupRequired s)) =
     (secretStorageKeyInAccount s = Some True)"
  by (simp add: actions_def)

section \<open>Operations and events\<close>

text \<open>
  C7 at a confirmed deletion that the service rejects: the component stays mounted, the
  error field stays empty, \<open>loading\<close> stays set and no quick reload is started.
\<close>

theorem deleteBackup_failure_not_absorbed:
  "snd (deleteBackup_onFinished True example_ready) = None \<and>
   AwaitDeleteKeyBackupVersion ''1'' \<in> set (pending (fst (deleteBackup_onFinished True example_ready))) \<and>
   \<not> unmounted (deleteBackup_resume ''1'' (Inl ''M_NOT_FOUND'')
                   (fst (deleteBackup_onFinished True example_ready))) \<and>
   error (state (deleteBackup_resume ''1'' (Inl ''M_NOT_FOUND'')
                   (fst (deleteBackup_onFinished True example_ready)))) = None \<and>
   loading (state (deleteBackup_resume ''1'' (Inl ''M_NOT_FOUND'')
                   (fst (deleteBackup_onFinished True example_ready)))) \<and>
   AwaitKeyBackupVersion \<notin> set (pending (deleteBackup_resume ''1'' (Inl ''M_NOT_FOUND'')
                   (fst (deleteBackup_onFinished True example_ready))))"
  by (simp add: deleteBackup_onFinished_def resume_defs start_defs example_defs Let_def)

text \<open>
  C8. The handler of the sessions-remaining event stores the count in
  \<open>sessionsRemaining\<close>, leaves every other field of the state as it is, and starts no
  call: the pending calls and the unmounted flag are unchanged.
\<close>

theorem onKeyBackupSessionsRemaining_frame:
  "sessionsRemaining (state (onKeyBackupSessionsRemaining n c)) = n \<and>
   loading (state (onKeyBackupSessionsRemaining n c)) = loading (state c) \<and>
   error (state (onKeyBackupSessionsRemaining n c)) = error (state c) \<and>
   backupKeyStored (state (onKeyBackupSessionsRemaining n c)) = backupKeyStored (state c) \<and>
   backupKeyCached (state (onKeyBackupSessionsRemaining n c)) = backupKeyCached (state c) \<and>
   backupKeyWellFormed (state (onKeyBackupSessionsRemaining n c))
     = backupKeyWellFormed (state c) \<and>
   secretStorageKeyInAccount (state (onKeyBackupSessionsRemaining n c))
     = secretStorageKeyInAccount (state c) \<and>
   secretStorageReady (state (onKeyBackupSessionsRemaining n c)) = secretStorageReady (state c) \<and>
   backupInfo (state (onKeyBackupSessionsRemaining n c)) = backupInfo (state c) \<and>
   backupSigStatus (state (onKeyBackupSessionsRemaining n c)) = backupSigStatus (state c) \<and>
   pending (onKeyBackupSessionsRemaining n c) = pending c \<and>
   unmounted (onKeyBackupSessionsRemaining n c) = unmounted c"
  by (simp add: onKeyBackupSessionsRemaining_def)

text \<open>
  C9. The state built by the constructor, which is still the state once the component is
  mounted and its first check is in flight: \<open>loading\<close> is true, the error is absent,
  \<open>sessionsRemaining\<close> is 0, and the backup metadata, the trust information and the five
  diagnostics fields are null.
\<close>

theorem constructor_state:
  "state (componentDidMount constructor) = state constructor \<and>
   loading (state constructor) \<and>
   error (state constructor) = None \<and>
   sessionsRemaining (state constructor) = 0 \<and>
   backupInfo (state constructor) = None \<and>
   backupSigStatus (state constructor) = None \<and>
   backupKeyStored (state constructor) = None \<and>
   backupKeyCached (state constructor) = None \<and>
   backupKeyWellFormed (state constructor) = None \<and>
   secretStorageKeyInAccount (state constructor) = None \<and>
   secretStorageReady (state constructor) = None"
  by (simp add: start_defs Let_def)

text \<open>
  C10. On a mounted component, when the reset fails the error is stored and a quick
  reload is started; when that reload succeeds, with or without the diagnostics arriving
  first, the error field is null again.
\<close>

theorem resetSecretStorage_error_overwritten:
  assumes "\<not> unmounted c"
    and "loadBackupStatus_calls g t = Inr (bi, ti)"
  shows "error (state (resetSecretStorage_resume (Inl e) (resetSecretStorage c))) = Some e
       \<and> AwaitKeyBackupVersion \<in>
           set (pending (resetSecretStorage_resume (Inl e) (resetSecretStorage c)))
       \<and> error (state (loadBackupStatus_resume g t
           (resetSecretStorage_resume (Inl e) (resetSecretStorage c)))) = None
       \<and> error (state (loadBackupStatus_resume g t
           (getUpdatedDiagnostics_resume d
             (resetSecretStorage_resume (Inl e) (resetSecretStorage c))))) = None"
  using assms
  by (simp add: resume_defs start_defs Let_def split: sum.splits)

theorem resetSecretStorage_error_overwritten_witness:
  "\<not> unmounted example_ready \<and>
   loadBackupStatus_calls (Inr (Some example_backup)) example_isKeyBackupTrusted
     = Inr (Some example_backup, example_trust) \<and>
   error (state (resetSecretStorage_resume (Inl ''cancelled'') (resetSecretStorage example_ready)))
     = Some ''cancelled'' \<and>
   error (state (loadBackupStatus_resume (Inr (Some example_backup)) example_isKeyBackupTrusted
      (resetSecretStorage_resume (Inl ''cancelled'') (resetSecretStorage example_ready)))) = None"
proof -
  have m: "\<not> unmounted example_ready"
    by (simp add: example_defs resume_defs start_defs Let_def)
  have k: "loadBackupStatus_calls (Inr (Some example_backup)) example_isKeyBackupTrusted
             = Inr (Some example_backup, example_trust)"
    by (simp add: loadBackupStatus_calls_def example_isKeyBackupTrusted_def)
  show ?thesis
    using m k resetSecretStorage_error_overwritten [OF m k, of "''cancelled''"]
    by simp
qed

end
